theory Spec2Isabelle
  imports Complex_Main
begin

section \<open>Z9CoachLite: score calculator, stage fallback and check-in store\<close>

text \<open>
  The development embeds the helper functions of \<^verbatim>\<open>app.py\<close> and the body of its
  "Analyze My Day" action.

  Conventions of the embedding:
  \<^item> a Python \<^verbatim>\<open>float\<close> is a \<open>real\<close>: arithmetic is exact, there is no rounding, no
    overflow and no NaN. On the values the sliders produce (integers from 0 to 100)
    every intermediate result of the score formulas is a small dyadic rational, which
    double precision represents exactly;
  \<^item> a Python \<^verbatim>\<open>str\<close> is a \<open>string\<close>; a character outside ASCII is written as its
    UTF-8 bytes;
  \<^item> a Python \<^verbatim>\<open>dict\<close> is an association list in insertion order, its keys distinct;
  \<^item> an exception is a value: a function that can raise returns \<open>py_error + 'a\<close>.
\<close>

subsection \<open>Python built-ins used by the code\<close>

text \<open>\<^verbatim>\<open>sum(xs)\<close>: left to right, starting from 0.\<close>

definition py_sum :: "real list \<Rightarrow> real" where
  "py_sum xs = foldl (+) 0 xs"

text \<open>\<^verbatim>\<open>d.get(k, default)\<close> on a dict.\<close>

definition dict_get :: "('k \<times> 'v) list \<Rightarrow> 'k \<Rightarrow> 'v \<Rightarrow> 'v" where
  "dict_get d k dflt = (case map_of d k of None \<Rightarrow> dflt | Some v \<Rightarrow> v)"

text \<open>\<^verbatim>\<open>d.values()\<close>.\<close>

definition dict_values :: "('k \<times> 'v) list \<Rightarrow> 'v list" where
  "dict_values d = map snd d"

subsection \<open>Score calculator\<close>

type_synonym traits = "(string \<times> real) list"

text \<open>
  \<^verbatim>\<open>
  def compute_trait_score(traits):
      if not traits:
          return 0.0
      return sum(traits.values()) / len(traits)
  \<close>
\<close>

definition compute_trait_score :: "traits \<Rightarrow> real" where
  "compute_trait_score traits =
     (if traits = [] then 0
      else py_sum (dict_values traits) / real (length traits))"

text \<open>
  \<^verbatim>\<open>
  def compute_harmony_ratio(traits):
      if not traits:
          return 0.0
      vals = list(traits.values())
      mean = sum(vals) / len(vals)
      if mean == 0:
          return 0.0
      variance = sum((v - mean) ** 2 for v in vals) / len(vals)
      raw = max(0.0, 100.0 - variance * 2.0)
      return max(0.0, min(100.0, raw))
  \<close>
\<close>

definition compute_harmony_ratio :: "traits \<Rightarrow> real" where
  "compute_harmony_ratio traits =
     (if traits = [] then 0
      else
        let vals = dict_values traits;
            mean = py_sum vals / real (length vals)
        in if mean = 0 then 0
           else
             let variance = py_sum (map (\<lambda>v. (v - mean) ^ 2) vals) / real (length vals);
                 raw = max 0 (100 - variance * 2)
             in max 0 (min 100 raw))"

subsection \<open>The specification's vocabulary for the scores\<close>

definition arithmetic_mean :: "real list \<Rightarrow> real" where
  "arithmetic_mean xs = sum_list xs / real (length xs)"

definition population_variance :: "real list \<Rightarrow> real" where
  "population_variance xs =
     arithmetic_mean (map (\<lambda>x. (x - arithmetic_mean xs) ^ 2) xs)"

definition clamp :: "real \<Rightarrow> real \<Rightarrow> real \<Rightarrow> real" where
  "clamp lo hi x = (if x < lo then lo else if hi < x then hi else x)"

definition disc :: "real \<Rightarrow> real \<Rightarrow> real \<Rightarrow> real \<Rightarrow> traits" where
  "disc d i s c = [(''D'', d), (''I'', i), (''S'', s), (''C'', c)]"

subsection \<open>Exceptions\<close>

text \<open>
  The exceptions the code can meet. \<open>SystemExiting\<close> stands for the exceptions that derive
  from \<^verbatim>\<open>BaseException\<close> but not from \<^verbatim>\<open>Exception\<close> (\<^verbatim>\<open>KeyboardInterrupt\<close>,
  \<^verbatim>\<open>SystemExit\<close>, \<^verbatim>\<open>GeneratorExit\<close>): an \<^verbatim>\<open>except Exception\<close> clause does not catch them.
\<close>

datatype py_error =
    ValueError | TypeError | AttributeError | KeyError | OtherException | SystemExiting

fun is_Exception :: "py_error \<Rightarrow> bool" where
  "is_Exception SystemExiting = False"
| "is_Exception _ = True"

subsection \<open>Stage suggestion: the local fallback\<close>

text \<open>
  \<^verbatim>\<open>max(d, key=d.get)\<close> on a dict: the keys are visited in insertion order and a later key
  replaces the best one only when its value is strictly greater, so the first key with
  the greatest value is returned; \<^verbatim>\<open>max\<close> of an empty dict raises \<^verbatim>\<open>ValueError\<close>.
\<close>

fun max_key_from :: "string \<times> real \<Rightarrow> (string \<times> real) list \<Rightarrow> string" where
  "max_key_from best [] = fst best"
| "max_key_from best (kv # rest) =
     max_key_from (if snd best < snd kv then kv else best) rest"

definition dict_max_key :: "(string \<times> real) list \<Rightarrow> py_error + string" where
  "dict_max_key d = (case d of [] \<Rightarrow> Inl ValueError | kv # rest \<Rightarrow> Inr (max_key_from kv rest))"

text \<open>The em dash U+2014 of the stage labels, in UTF-8.\<close>

definition em_dash :: string where
  "em_dash = [CHR 0xE2, CHR 0x80, CHR 0x94]"

definition stage_mapping :: "(string \<times> string) list" where
  "stage_mapping =
     [(''D'', ''Stage 4 '' @ em_dash @ '' Initiative vs. Guilt''),
      (''I'', ''Stage 5 '' @ em_dash @ '' Identity vs. Role Confusion''),
      (''S'', ''Stage 6 '' @ em_dash @ '' Intimacy vs. Isolation''),
      (''C'', ''Stage 7 '' @ em_dash @ '' Generativity vs. Stagnation'')]"

text \<open>
  \<^verbatim>\<open>
  def map_disc_to_stage(d, i, s, c):
      traits = {"D": d, "I": i, "S": s, "C": c}
      dominant = max(traits, key=traits.get)
      mapping = {"D": "Stage 4 ...", "I": "Stage 5 ...", "S": "Stage 6 ...", "C": "Stage 7 ..."}
      return mapping.get(dominant, "Stage 5 - Identity vs. Role Confusion")
  \<close>
\<close>

definition dominant_trait :: "real \<Rightarrow> real \<Rightarrow> real \<Rightarrow> real \<Rightarrow> py_error + string" where
  "dominant_trait d i s c = dict_max_key [(''D'', d), (''I'', i), (''S'', s), (''C'', c)]"

definition map_disc_to_stage :: "real \<Rightarrow> real \<Rightarrow> real \<Rightarrow> real \<Rightarrow> py_error + string" where
  "map_disc_to_stage d i s c =
     (case dominant_trait d i s c of
        Inl e \<Rightarrow> Inl e
      | Inr dominant \<Rightarrow>
          Inr (dict_get stage_mapping dominant
                 (''Stage 5 '' @ em_dash @ '' Identity vs. Role Confusion'')))"

text \<open>
  The specification's wording: the trait with the maximum magnitude, the first one in the
  order D, I, S, C when several traits share the maximum.
\<close>

definition strongest_trait :: "real \<Rightarrow> real \<Rightarrow> real \<Rightarrow> real \<Rightarrow> string" where
  "strongest_trait d i s c =
     (let m = max d (max i (max s c))
      in if d = m then ''D'' else if i = m then ''I'' else if s = m then ''S'' else ''C'')"

subsection \<open>Recent history\<close>

text \<open>\<^verbatim>\<open>xs[k:]\<close>: a negative start counts from the end, and the start is clipped to the list.\<close>

definition py_slice_from :: "int \<Rightarrow> 'a list \<Rightarrow> 'a list" where
  "py_slice_from k xs =
     (let n = int (length xs);
          start = (if k < 0 then max (n + k) 0 else min k n)
      in drop (nat start) xs)"

text \<open>
  \<^verbatim>\<open>last_items = list(reversed(history[-7:]))\<close>, the items of the preview. The code
  computes them when \<^verbatim>\<open>history\<close> is not empty and shows a caption otherwise.
\<close>

definition last_items :: "'a list \<Rightarrow> 'a list" where
  "last_items history = rev (py_slice_from (- 7) history)"

definition recent_preview :: "'a list \<Rightarrow> 'a list option" where
  "recent_preview history = (if history \<noteq> [] then Some (last_items history) else None)"

subsection \<open>Check-in store\<close>

text \<open>
  The values of Python that the store and the records are made of: what \<^verbatim>\<open>json.loads\<close>
  returns and \<^verbatim>\<open>json.dumps\<close> accepts.
\<close>

datatype pyval =
    PNone
  | PBool bool
  | PInt int
  | PFloat real
  | PStr string
  | PList "pyval list"
  | PDict "(string \<times> pyval) list"

text \<open>
  The two functions of the standard \<^verbatim>\<open>json\<close> module that the store calls are parameters of
  the model: \<open>loads text\<close> is \<open>None\<close> where \<^verbatim>\<open>json.loads(text)\<close> raises, and \<open>dumps v\<close> is
  \<^verbatim>\<open>json.dumps(v, indent=2)\<close>.
\<close>

record json_module =
  loads :: "string \<Rightarrow> pyval option"
  dumps :: "pyval \<Rightarrow> string"

text \<open>
  The state of \<^verbatim>\<open>data/lite_checkins.json\<close>: the file is missing, or it exists and its bytes are
  not UTF-8 (\<^verbatim>\<open>read_text\<close> raises \<^verbatim>\<open>UnicodeDecodeError\<close>), or it exists and holds a text.
\<close>

datatype checkin_file = Missing | Undecodable | Content string

text \<open>
  \<^verbatim>\<open>
  def load_checkins():
      if not CHECKIN_FILE.exists():
          return []
      try:
          return json.loads(CHECKIN_FILE.read_text(encoding="utf-8"))
      except Exception:
          return []
  \<close>
  The result is whatever value the text parses to, a list or not.
\<close>

definition load_checkins :: "json_module \<Rightarrow> checkin_file \<Rightarrow> pyval" where
  "load_checkins J file =
     (case file of
        Missing \<Rightarrow> PList []
      | Undecodable \<Rightarrow> PList []
      | Content text \<Rightarrow> (case loads J text of None \<Rightarrow> PList [] | Some v \<Rightarrow> v))"

text \<open>\<^verbatim>\<open>xs.append(x)\<close>: only a list has the method.\<close>

definition py_append :: "pyval \<Rightarrow> pyval \<Rightarrow> py_error + pyval" where
  "py_append xs x = (case xs of PList ys \<Rightarrow> Inr (PList (ys @ [x])) | _ \<Rightarrow> Inl AttributeError)"

text \<open>
  \<^verbatim>\<open>
  def save_checkin(entry):
      entries = load_checkins()
      entries.append(entry)
      CHECKIN_FILE.write_text(json.dumps(entries, indent=2), encoding="utf-8")
  \<close>
  The result is the new state of the file. The write itself is taken to succeed: the code
  does not guard it, and a failing disk is outside the model.
\<close>

definition save_checkin :: "json_module \<Rightarrow> pyval \<Rightarrow> checkin_file \<Rightarrow> py_error + checkin_file" where
  "save_checkin J entry file =
     (case py_append (load_checkins J file) entry of
        Inl e \<Rightarrow> Inl e
      | Inr entries \<Rightarrow> Inr (Content (dumps J entries)))"

subsection \<open>A sample of the json module\<close>

text \<open>
  For the examples: the behaviour of \<^verbatim>\<open>json\<close> on the texts of two small logs, as Python
  prints and reads them with \<^verbatim>\<open>indent=2\<close>. Every other text is rejected by this sample.
\<close>

definition nl :: string where
  "nl = [CHR 0x0A]"

definition dq :: string where
  "dq = [CHR 0x22]"

definition record_a :: pyval where
  "record_a = PDict [(''mood_score'', PInt 3)]"

definition record_b :: pyval where
  "record_b = PDict [(''mood_score'', PInt 5)]"

definition text_a :: string where
  "text_a = ''['' @ nl @ ''  {'' @ nl @ ''    '' @ dq @ ''mood_score'' @ dq @ '': 3'' @ nl
     @ ''  }'' @ nl @ '']''"

definition text_ab :: string where
  "text_ab = ''['' @ nl @ ''  {'' @ nl @ ''    '' @ dq @ ''mood_score'' @ dq @ '': 3'' @ nl
     @ ''  },'' @ nl @ ''  {'' @ nl @ ''    '' @ dq @ ''mood_score'' @ dq @ '': 5'' @ nl
     @ ''  }'' @ nl @ '']''"

definition sample_loads :: "string \<Rightarrow> pyval option" where
  "sample_loads text =
     (if text = text_a then Some (PList [record_a])
      else if text = text_ab then Some (PList [record_a, record_b])
      else None)"

definition sample_dumps :: "pyval \<Rightarrow> string" where
  "sample_dumps v =
     (if v = PList [record_a] then text_a
      else if v = PList [record_a, record_b] then text_ab
      else ''null'')"

definition sample_json :: json_module where
  "sample_json = \<lparr>loads = sample_loads, dumps = sample_dumps\<rparr>"

subsection \<open>The analysis step\<close>

text \<open>Sequencing of steps that can raise: the first exception ends the computation.\<close>

definition bind_err :: "py_error + 'a \<Rightarrow> ('a \<Rightarrow> py_error + 'b) \<Rightarrow> py_error + 'b" where
  "bind_err m f = (case m of Inl e \<Rightarrow> Inl e | Inr x \<Rightarrow> f x)"

text \<open>\<^verbatim>\<open>d[k]\<close> on a dict: a missing key raises \<^verbatim>\<open>KeyError\<close>.\<close>

definition dict_item :: "('k \<times> 'v) list \<Rightarrow> 'k \<Rightarrow> py_error + 'v" where
  "dict_item d k = (case map_of d k of None \<Rightarrow> Inl KeyError | Some v \<Rightarrow> Inr v)"

text \<open>
  The external analyzer \<^verbatim>\<open>z9_core.analysis.analyze_profile\<close> is not part of the repository.
  A call of it raises, or returns an object without a \<^verbatim>\<open>get\<close> method, or returns a
  mapping. A value of the mapping is \<open>Number r\<close> when \<^verbatim>\<open>float\<close> converts it to \<open>r\<close>, and
  \<open>NotNumber\<close> when \<^verbatim>\<open>float\<close> raises on it.
\<close>

datatype field_value = Number real | NotNumber

datatype analyzer_outcome =
    Returns "(string \<times> field_value) list"
  | ReturnsNonMapping
  | Raises py_error

type_synonym analyzer = "real \<Rightarrow> real \<Rightarrow> real \<Rightarrow> real \<Rightarrow> string option \<Rightarrow> analyzer_outcome"

definition py_float :: "field_value \<Rightarrow> py_error + real" where
  "py_float v = (case v of Number r \<Rightarrow> Inr r | NotNumber \<Rightarrow> Inl TypeError)"

text \<open>
  The body of the \<^verbatim>\<open>try\<close>:
  \<^verbatim>\<open>
  profile = analyze_profile(
      traits["D"], traits["I"], traits["S"], traits["C"],
      stage_label=None if perceived_stage == "(skip)" else perceived_stage,
  )
  trait_score = float(profile.get("trait_score", 0.0))
  harmony_ratio = float(profile.get("harmony_ratio", 0.0))
  \<close>
\<close>

definition try_analyzer :: "analyzer \<Rightarrow> traits \<Rightarrow> string \<Rightarrow> py_error + real \<times> real" where
  "try_analyzer analyze_profile traits perceived_stage =
     bind_err (dict_item traits ''D'') (\<lambda>d.
     bind_err (dict_item traits ''I'') (\<lambda>i.
     bind_err (dict_item traits ''S'') (\<lambda>s.
     bind_err (dict_item traits ''C'') (\<lambda>c.
       case analyze_profile d i s c
              (if perceived_stage = ''(skip)'' then None else Some perceived_stage) of
         Raises e \<Rightarrow> Inl e
       | ReturnsNonMapping \<Rightarrow> Inl AttributeError
       | Returns profile \<Rightarrow>
           bind_err (py_float (dict_get profile ''trait_score'' (Number 0))) (\<lambda>trait_score.
           bind_err (py_float (dict_get profile ''harmony_ratio'' (Number 0))) (\<lambda>harmony_ratio.
             Inr (trait_score, harmony_ratio)))))))"

text \<open>
  \<^verbatim>\<open>
  if analyze_profile is not None:
      try:
          ...
      except Exception:
          profile = {}
          trait_score = compute_trait_score(traits)
          harmony_ratio = compute_harmony_ratio(traits)
  else:
      profile = {}
      trait_score = compute_trait_score(traits)
      harmony_ratio = compute_harmony_ratio(traits)
  \<close>
  The result is the pair \<open>(trait_score, harmony_ratio)\<close>; \<^verbatim>\<open>profile\<close> is not read again.
\<close>

definition analysis :: "analyzer option \<Rightarrow> traits \<Rightarrow> string \<Rightarrow> py_error + real \<times> real" where
  "analysis analyze_profile traits perceived_stage =
     (case analyze_profile of
        None \<Rightarrow> Inr (compute_trait_score traits, compute_harmony_ratio traits)
      | Some f \<Rightarrow>
          (case try_analyzer f traits perceived_stage of
             Inr scores \<Rightarrow> Inr scores
           | Inl e \<Rightarrow>
               if is_Exception e
               then Inr (compute_trait_score traits, compute_harmony_ratio traits)
               else Inl e))"

subsection \<open>The "Analyze My Day" action\<close>

datatype mood = Drained | Neutral | Steady | Energized | Focused

text \<open>The options of the mood selectbox; each starts with an emoji, written in UTF-8.\<close>

fun mood_label :: "mood \<Rightarrow> string" where
  "mood_label Drained = [CHR 0xF0, CHR 0x9F, CHR 0x98, CHR 0x94] @ '' Drained''"
| "mood_label Neutral = [CHR 0xF0, CHR 0x9F, CHR 0x98, CHR 0x90] @ '' Neutral''"
| "mood_label Steady = [CHR 0xF0, CHR 0x9F, CHR 0x99, CHR 0x82] @ '' Steady''"
| "mood_label Energized = [CHR 0xF0, CHR 0x9F, CHR 0x98, CHR 0x84] @ '' Energized''"
| "mood_label Focused = [CHR 0xF0, CHR 0x9F, CHR 0xA7, CHR 0xA0] @ '' Focused & Inspired''"

fun mood_score_map :: "mood \<Rightarrow> int" where
  "mood_score_map Drained = 1"
| "mood_score_map Neutral = 2"
| "mood_score_map Steady = 3"
| "mood_score_map Energized = 4"
| "mood_score_map Focused = 5"

text \<open>What the user entered: the mood, the notes, the four sliders and the stage selectbox.\<close>

record form =
  mood :: mood
  mood_notes :: string
  d_val :: int
  i_val :: int
  s_val :: int
  c_val :: int
  perceived_stage :: string

text \<open>
  What the two guarded imports of \<^verbatim>\<open>z9_core\<close> resolved to: \<open>None\<close> for the analyzer when its
  import failed, and \<open>None\<close> for the stage mapper when the local fallback is in use.
\<close>

type_synonym stage_mapper = "real \<Rightarrow> real \<Rightarrow> real \<Rightarrow> real \<Rightarrow> py_error + string"

record core_imports =
  analyze_profile :: "analyzer option"
  core_stage_mapper :: "stage_mapper option"

definition resolved_map_disc_to_stage :: "core_imports \<Rightarrow> stage_mapper" where
  "resolved_map_disc_to_stage app =
     (case core_stage_mapper app of None \<Rightarrow> map_disc_to_stage | Some m \<Rightarrow> m)"

text \<open>
  \<^verbatim>\<open>traits = {"D": float(d_val), "I": float(i_val), "S": float(s_val), "C": float(c_val)}\<close>
\<close>

definition form_traits :: "form \<Rightarrow> traits" where
  "form_traits f =
     [(''D'', real_of_int (d_val f)), (''I'', real_of_int (i_val f)),
      (''S'', real_of_int (s_val f)), (''C'', real_of_int (c_val f))]"

text \<open>
  \<^verbatim>\<open>auto_stage = map_disc_to_stage(traits["D"], traits["I"], traits["S"], traits["C"])\<close>
\<close>

definition auto_stage_of :: "stage_mapper \<Rightarrow> traits \<Rightarrow> py_error + string" where
  "auto_stage_of mapper traits =
     bind_err (dict_item traits ''D'') (\<lambda>d.
     bind_err (dict_item traits ''I'') (\<lambda>i.
     bind_err (dict_item traits ''S'') (\<lambda>s.
     bind_err (dict_item traits ''C'') (\<lambda>c. mapper d i s c))))"

text \<open>
  \<^verbatim>\<open>
  entry = {
      "timestamp": datetime.utcnow().isoformat(),
      "mood_label": mood_label,
      "mood_score": mood_score,
      "mood_notes": mood_notes,
      "traits": traits,
      "trait_score": trait_score,
      "harmony_ratio": harmony_ratio,
      "perceived_stage": None if perceived_stage == "(skip)" else perceived_stage,
      "auto_stage": auto_stage,
  }
  \<close>
  The timestamp is an input of the model.
\<close>

definition make_entry :: "string \<Rightarrow> form \<Rightarrow> traits \<Rightarrow> real \<Rightarrow> real \<Rightarrow> string \<Rightarrow> pyval" where
  "make_entry timestamp f traits trait_score harmony_ratio auto_stage =
     PDict
       [(''timestamp'', PStr timestamp),
        (''mood_label'', PStr (mood_label (mood f))),
        (''mood_score'', PInt (mood_score_map (mood f))),
        (''mood_notes'', PStr (mood_notes f)),
        (''traits'', PDict (map (\<lambda>kv. (fst kv, PFloat (snd kv))) traits)),
        (''trait_score'', PFloat trait_score),
        (''harmony_ratio'', PFloat harmony_ratio),
        (''perceived_stage'',
           if perceived_stage f = ''(skip)'' then PNone else PStr (perceived_stage f)),
        (''auto_stage'', PStr auto_stage)]"

text \<open>
  The body of \<^verbatim>\<open>if st.button("Analyze My Day"):\<close> up to \<^verbatim>\<open>save_checkin(entry)\<close>. The result
  is the record and the new state of the store file; what follows in the code only
  displays them.
\<close>

definition analyze_my_day ::
  "core_imports \<Rightarrow> json_module \<Rightarrow> string \<Rightarrow> form \<Rightarrow> checkin_file \<Rightarrow> py_error + pyval \<times> checkin_file"
where
  "analyze_my_day app J timestamp f file =
     (let traits = form_traits f
      in bind_err (analysis (analyze_profile app) traits (perceived_stage f)) (\<lambda>scores.
         bind_err (auto_stage_of (resolved_map_disc_to_stage app) traits) (\<lambda>auto_stage.
           let entry = make_entry timestamp f traits (fst scores) (snd scores) auto_stage
           in bind_err (save_checkin J entry file) (\<lambda>file'. Inr (entry, file')))))"

text \<open>Reading a field of a record, and the harmony ratio of the record an action logged.\<close>

definition entry_field :: "pyval \<Rightarrow> string \<Rightarrow> pyval option" where
  "entry_field entry k = (case entry of PDict kvs \<Rightarrow> map_of kvs k | _ \<Rightarrow> None)"

definition logged_harmony_ratio :: "py_error + pyval \<times> checkin_file \<Rightarrow> pyval option" where
  "logged_harmony_ratio result =
     (case result of Inl e \<Rightarrow> None | Inr logged \<Rightarrow> entry_field (fst logged) ''harmony_ratio'')"

text \<open>Inputs for the examples.\<close>

definition sample_form :: form where
  "sample_form =
     \<lparr>mood = Steady, mood_notes = [], d_val = 40, i_val = 40, s_val = 45, c_val = 35,
      perceived_stage = ''(skip)''\<rparr>"

definition inflated_analyzer :: analyzer where
  "inflated_analyzer d i s c stage_label =
     Returns [(''trait_score'', Number 50), (''harmony_ratio'', Number 150)]"

definition failing_analyzer :: analyzer where
  "failing_analyzer d i s c stage_label = Raises ValueError"

definition no_core :: core_imports where
  "no_core = \<lparr>analyze_profile = None, core_stage_mapper = None\<rparr>"

definition inflated_core :: core_imports where
  "inflated_core = \<lparr>analyze_profile = Some inflated_analyzer, core_stage_mapper = None\<rparr>"

section \<open>Properties\<close>

subsection \<open>Built-ins\<close>

lemma foldl_plus_start: "foldl (+) (a::real) xs = a + sum_list xs"
  by (induction xs arbitrary: a) (simp_all add: add.assoc)

lemma py_sum_sum_list: "py_sum xs = sum_list xs"
  by (simp add: py_sum_def foldl_plus_start)

lemma dict_values_eq_Nil [simp]: "dict_values d = [] \<longleftrightarrow> d = []"
  by (simp add: dict_values_def)

lemma length_dict_values [simp]: "length (dict_values d) = length d"
  by (simp add: dict_values_def)

lemma sum_list_squares_nonneg: "0 \<le> sum_list (map (\<lambda>x. (x - m) ^ 2) (xs::real list))"
  by (induction xs) simp_all

lemma population_variance_nonneg: "0 \<le> population_variance xs"
  by (simp add: population_variance_def arithmetic_mean_def sum_list_squares_nonneg)

subsection \<open>Composite score and harmony ratio\<close>

lemma compute_harmony_ratio_nonempty:
  assumes "traits \<noteq> []" and "arithmetic_mean (dict_values traits) \<noteq> 0"
  shows "compute_harmony_ratio traits =
           clamp 0 100 (100 - 2 * population_variance (dict_values traits))"
proof -
  let ?vals = "dict_values traits"
  let ?v = "population_variance ?vals"
  have chr: "compute_harmony_ratio traits = max 0 (min 100 (max 0 (100 - ?v * 2)))"
    using assms
    by (simp add: compute_harmony_ratio_def Let_def py_sum_sum_list
        population_variance_def arithmetic_mean_def)
  have "0 \<le> ?v"
    by (rule population_variance_nonneg)
  then show ?thesis
    unfolding chr clamp_def by (simp add: max_def min_def)
qed

lemma compute_harmony_ratio_zero:
  assumes "traits = [] \<or> arithmetic_mean (dict_values traits) = 0"
  shows "compute_harmony_ratio traits = 0"
  using assms
  by (auto simp: compute_harmony_ratio_def Let_def py_sum_sum_list arithmetic_mean_def)

lemma compute_harmony_ratio_range:
  "0 \<le> compute_harmony_ratio traits \<and> compute_harmony_ratio traits \<le> 100"
  by (simp add: compute_harmony_ratio_def Let_def max_def min_def)

lemma sum_list_constant:
  "\<forall>v\<in>set xs. v = x \<Longrightarrow> sum_list xs = real (length xs) * (x::real)"
  by (induction xs) (simp_all add: algebra_simps)

lemma sum_list_deviation_constant:
  "\<forall>v\<in>set xs. v = x \<Longrightarrow> sum_list (map (\<lambda>v. (v - x) ^ 2) xs) = (0::real)"
  by (induction xs) simp_all

lemma compute_harmony_ratio_balanced:
  assumes "traits \<noteq> []" and "\<forall>v\<in>set (dict_values traits). v = x" and "x \<noteq> 0"
  shows "compute_harmony_ratio traits = 100"
proof -
  let ?vals = "dict_values traits"
  have "sum_list ?vals = real (length ?vals) * x"
    using assms(2) by (rule sum_list_constant)
  with assms(1) have mean: "py_sum ?vals / real (length ?vals) = x"
    by (simp add: py_sum_sum_list)
  have var: "py_sum (map (\<lambda>v. (v - x) ^ 2) ?vals) = 0"
    using assms(2) by (simp add: py_sum_sum_list sum_list_deviation_constant)
  show ?thesis
    unfolding compute_harmony_ratio_def Let_def mean var using assms(1,3) by simp
qed

lemma compute_harmony_ratio_single_peak:
  "compute_harmony_ratio (disc 100 0 0 0) = 0"
  by (simp add: compute_harmony_ratio_def disc_def dict_values_def py_sum_def Let_def)

subsection \<open>Stage fallback\<close>

lemma dominant_trait_cases:
  "dominant_trait d i s c =
     Inr (if i \<le> d \<and> s \<le> d \<and> c \<le> d then ''D''
          else if s \<le> i \<and> c \<le> i then ''I''
          else if c \<le> s then ''S'' else ''C'')"
  by (simp add: dominant_trait_def dict_max_key_def)

lemma dominant_trait_strongest: "dominant_trait d i s c = Inr (strongest_trait d i s c)"
  unfolding dominant_trait_cases strongest_trait_def Let_def
  by (simp add: max_def)

lemma strongest_trait_in_table:
  "strongest_trait d i s c \<in> set (map fst stage_mapping)"
  by (simp add: strongest_trait_def stage_mapping_def Let_def)

text \<open>
  Claim C6. The fallback \<open>map_disc_to_stage\<close> returns the entry of the static table for the
  trait of maximum magnitude, the first in the order D, I, S, C among equals. When D is
  strictly the greatest the result is the label of D. The dominant trait is always a key
  of the table, so the default of the lookup is never used.
\<close>

theorem C6_map_disc_to_stage:
  "(\<exists>label. map_of stage_mapping (strongest_trait d i s c) = Some label
        \<and> map_disc_to_stage d i s c = Inr label)
   \<and> (i < d \<and> s < d \<and> c < d \<longrightarrow>
        map_disc_to_stage d i s c = Inr (''Stage 4 '' @ em_dash @ '' Initiative vs. Guilt''))
   \<and> (\<exists>dominant. dominant_trait d i s c = Inr dominant
        \<and> map_of stage_mapping dominant \<noteq> None)"
proof -
  let ?k = "strongest_trait d i s c"
  have "?k \<in> set (map fst stage_mapping)"
    by (rule strongest_trait_in_table)
  then obtain label where label: "map_of stage_mapping ?k = Some label"
    by (metis domIff dom_map_of_conv_image_fst not_Some_eq set_map)
  have stage: "map_disc_to_stage d i s c = Inr label"
    by (simp add: map_disc_to_stage_def dominant_trait_strongest dict_get_def label)
  have strict: "map_disc_to_stage d i s c = Inr (''Stage 4 '' @ em_dash @ '' Initiative vs. Guilt'')"
    if "i < d \<and> s < d \<and> c < d"
    using that
    by (simp add: map_disc_to_stage_def dominant_trait_cases dict_get_def stage_mapping_def)
  from label stage strict show ?thesis
    by (simp add: dominant_trait_strongest)
qed

theorem C6_map_disc_to_stage_witness:
  "map_disc_to_stage 60 40 40 20 = Inr (''Stage 4 '' @ em_dash @ '' Initiative vs. Guilt'')
   \<and> (40::real) < 60 \<and> (20::real) < 60"
  using C6_map_disc_to_stage [of 60 40 40 20]
  by simp

subsection \<open>Recent history\<close>

lemma py_slice_from_negative:
  "0 < n \<Longrightarrow> py_slice_from (- int n) xs = drop (length xs - n) xs"
  by (simp add: py_slice_from_def Let_def max_def nat_diff_distrib')

lemma recent_preview_items:
  "recent_preview history = (if history = [] then None else Some (last_items history))"
  by (simp add: recent_preview_def)

text \<open>
  Claim C9. The items of the recent-history preview are the last \<open>min 7 (length history)\<close>
  records of the stored log, most recent first. On a log of 10 records they are the
  records 10, 9, 8, 7, 6, 5, 4 in that order.
\<close>

theorem C9_recent_history:
  "last_items history =
     rev (drop (length history - min 7 (length history)) history)
   \<and> last_items history = take (min 7 (length history)) (rev history)
   \<and> length (last_items history) = min 7 (length history)
   \<and> last_items [1, 2, 3, 4, 5, 6, 7, 8, 9, 10 :: nat] = [10, 9, 8, 7, 6, 5, 4]"
proof -
  have slice: "py_slice_from (- 7) history = drop (length history - 7) history"
    using py_slice_from_negative [of 7 history] by simp
  have a: "last_items history = rev (drop (length history - min 7 (length history)) history)"
    by (simp add: last_items_def slice min_def)
  have b: "last_items history = take (min 7 (length history)) (rev history)"
    by (simp add: last_items_def slice rev_drop min_def)
  have c: "length (last_items history) = min 7 (length history)"
    by (simp add: last_items_def slice min_def)
  have d: "last_items [1, 2, 3, 4, 5, 6, 7, 8, 9, 10 :: nat] = [10, 9, 8, 7, 6, 5, 4]"
    by (simp add: last_items_def py_slice_from_def)
  from a b c d show ?thesis by blast
qed

subsection \<open>Check-in store\<close>

lemma load_checkins_returns_parsed_value:
  "loads J text = Some v \<Longrightarrow> load_checkins J (Content text) = v"
  by (simp add: load_checkins_def)

lemma save_checkin_needs_a_list:
  "loads J text = Some (PDict kvs) \<Longrightarrow> save_checkin J r (Content text) = Inl AttributeError"
  by (simp add: save_checkin_def load_checkins_def py_append_def)

text \<open>
  Claim C3. When the store file is missing, or present with contents that fail to parse
  (or that cannot even be decoded), \<open>load_checkins\<close> returns the empty sequence. It cannot
  raise: the read and the parse, the only steps that can, are inside the \<^verbatim>\<open>try\<close>.
\<close>

theorem C3_load_checkins_empty:
  "(file = Missing \<or> file = Undecodable \<or> (\<exists>text. file = Content text \<and> loads J text = None))
     \<longrightarrow> load_checkins J file = PList []"
  by (auto simp: load_checkins_def)

theorem C3_load_checkins_empty_witness:
  "loads sample_json ''{not json'' = None
   \<and> load_checkins sample_json (Content ''{not json'') = PList []
   \<and> load_checkins sample_json Missing = PList []"
  using C3_load_checkins_empty [of "Content ''{not json''" sample_json]
    C3_load_checkins_empty [of Missing sample_json]
  by (simp add: sample_json_def sample_loads_def text_a_def text_ab_def)

text \<open>
  Claim C2. Let the store load as the sequence \<open>s\<close>, and let the new log \<open>s @ [r]\<close> survive
  the JSON round trip. Then \<open>save_checkin r\<close> succeeds, and \<open>load_checkins\<close> afterwards
  yields \<open>s\<close> with \<open>r\<close> appended: one element longer, \<open>r\<close> last, the earlier elements
  unchanged and in order.
\<close>

theorem C2_save_then_load:
  assumes "load_checkins J file = PList s"
    and "loads J (dumps J (PList (s @ [r]))) = Some (PList (s @ [r]))"
  shows "\<exists>file' s'. save_checkin J r file = Inr file'
           \<and> load_checkins J file' = PList s'
           \<and> s' = s @ [r]
           \<and> length s' = length s + 1
           \<and> last s' = r
           \<and> take (length s) s' = s"
  using assms by (simp add: save_checkin_def py_append_def load_checkins_def)

theorem C2_save_then_load_witness:
  "load_checkins sample_json (Content text_a) = PList [record_a]
   \<and> save_checkin sample_json record_b (Content text_a) = Inr (Content text_ab)
   \<and> load_checkins sample_json (Content text_ab) = PList [record_a, record_b]"
  using C2_save_then_load [of sample_json "Content text_a" "[record_a]" record_b]
  by (simp add: load_checkins_def save_checkin_def py_append_def sample_json_def
      sample_loads_def sample_dumps_def text_a_def text_ab_def record_a_def record_b_def)

text \<open>
  Claim C10. When the store file exists and its contents fail to parse, \<open>save_checkin r\<close>
  succeeds and overwrites the file with the serialisation of the one-element array
  \<open>[r]\<close>, whatever the previous contents were; where that array survives the JSON round
  trip, \<open>load_checkins\<close> afterwards returns exactly \<open>[r]\<close>.
\<close>

theorem C10_save_over_unparseable:
  assumes "loads J text = None"
    and "loads J (dumps J (PList [r])) = Some (PList [r])"
  shows "save_checkin J r (Content text) = Inr (Content (dumps J (PList [r])))
         \<and> load_checkins J (Content (dumps J (PList [r]))) = PList [r]"
  using assms by (simp add: save_checkin_def py_append_def load_checkins_def)

theorem C10_save_over_unparseable_witness:
  "loads sample_json ''{not json'' = None
   \<and> save_checkin sample_json record_a (Content ''{not json'') = Inr (Content text_a)
   \<and> load_checkins sample_json (Content text_a) = PList [record_a]"
  using C10_save_over_unparseable [of sample_json "''{not json''" record_a]
  by (simp add: load_checkins_def save_checkin_def py_append_def sample_json_def
      sample_loads_def sample_dumps_def text_a_def text_ab_def record_a_def)

subsection \<open>Analysis step and logged record\<close>

lemma analysis_without_analyzer:
  "analysis None traits ps = Inr (compute_trait_score traits, compute_harmony_ratio traits)"
  by (simp add: analysis_def)

lemma analysis_after_exception:
  "try_analyzer g traits ps = Inl e \<Longrightarrow> is_Exception e \<Longrightarrow>
   analysis (Some g) traits ps = Inr (compute_trait_score traits, compute_harmony_ratio traits)"
  by (simp add: analysis_def)

lemma try_analyzer_raises:
  "dict_item traits ''D'' = Inr d \<Longrightarrow> dict_item traits ''I'' = Inr i \<Longrightarrow>
   dict_item traits ''S'' = Inr s \<Longrightarrow> dict_item traits ''C'' = Inr c \<Longrightarrow>
   g d i s c (if ps = ''(skip)'' then None else Some ps) = Raises e \<Longrightarrow>
   try_analyzer g traits ps = Inl e"
  by (simp add: try_analyzer_def bind_err_def)

text \<open>
  Claim C7. When the analyzer is unavailable, and when its call raises an error (an
  exception that \<^verbatim>\<open>except Exception\<close> catches), the analysis step returns normally with
  \<open>trait_score = compute_trait_score traits\<close> and
  \<open>harmony_ratio = compute_harmony_ratio traits\<close>: nothing is propagated.
\<close>

theorem C7_fallback_to_local_formulas:
  "analysis None traits ps = Inr (compute_trait_score traits, compute_harmony_ratio traits)
   \<and> (dict_item traits ''D'' = Inr d \<and> dict_item traits ''I'' = Inr i
        \<and> dict_item traits ''S'' = Inr s \<and> dict_item traits ''C'' = Inr c
        \<and> g d i s c (if ps = ''(skip)'' then None else Some ps) = Raises e
        \<and> is_Exception e \<longrightarrow>
      analysis (Some g) traits ps =
        Inr (compute_trait_score traits, compute_harmony_ratio traits))"
  using analysis_without_analyzer [of traits ps] try_analyzer_raises [of traits d i s c g ps e]
    analysis_after_exception [of g traits ps e]
  by blast

theorem C7_fallback_to_local_formulas_witness:
  "failing_analyzer 40 40 45 35 None = Raises ValueError
   \<and> is_Exception ValueError
   \<and> analysis (Some failing_analyzer) (form_traits sample_form) ''(skip)'' = Inr (40, 75)
   \<and> compute_trait_score (form_traits sample_form) = 40
   \<and> compute_harmony_ratio (form_traits sample_form) = 75"
  using C7_fallback_to_local_formulas
    [of "form_traits sample_form" "''(skip)''" 40 40 45 35 failing_analyzer ValueError]
  by (simp add: failing_analyzer_def form_traits_def sample_form_def dict_item_def
      compute_trait_score_def compute_harmony_ratio_def dict_values_def py_sum_def)

lemma form_traits_stage:
  "auto_stage_of m (form_traits f) =
     m (real_of_int (d_val f)) (real_of_int (i_val f)) (real_of_int (s_val f)) (real_of_int (c_val f))"
  by (simp add: auto_stage_of_def form_traits_def dict_item_def bind_err_def)

lemma entry_field_harmony_ratio:
  "entry_field (make_entry t f traits ts hr st) ''harmony_ratio'' = Some (PFloat hr)"
  by (simp add: entry_field_def make_entry_def)

lemma analyze_my_day_result:
  assumes "analyze_my_day app J timestamp f file = Inr (entry, file')"
  shows "\<exists>scores auto_stage.
           analysis (analyze_profile app) (form_traits f) (perceived_stage f) = Inr scores
         \<and> entry = make_entry timestamp f (form_traits f) (fst scores) (snd scores) auto_stage
         \<and> save_checkin J entry file = Inr file'"
  using assms
  by (auto simp: analyze_my_day_def bind_err_def Let_def split: sum.splits)

lemma analysis_harmony_ratio:
  assumes "analysis ap traits ps = Inr scores"
  shows "case ap of
           None \<Rightarrow> 0 \<le> snd scores \<and> snd scores \<le> 100
         | Some g \<Rightarrow>
             (case try_analyzer g traits ps of
                Inl e \<Rightarrow> 0 \<le> snd scores \<and> snd scores \<le> 100
              | Inr returned \<Rightarrow> snd scores = snd returned)"
  using assms compute_harmony_ratio_range [of traits]
  by (auto simp: analysis_def split: option.splits sum.splits if_splits)

text \<open>
  Claim C4, as the code has it. The record that the action appends to the log carries a
  harmony ratio between 0 and 100 whenever the value comes from the local formula: the
  analyzer is absent, or the guarded block (the call and the two conversions) raised.
  When the analyzer returns a mapping whose values convert, the record carries
  \<^verbatim>\<open>float(profile.get("harmony_ratio", 0.0))\<close> as it is, with no clamping.
\<close>

theorem C4_logged_harmony_ratio:
  assumes "analyze_my_day app J timestamp f file = Inr (entry, file')"
  shows "save_checkin J entry file = Inr file'
         \<and> (\<exists>h. entry_field entry ''harmony_ratio'' = Some (PFloat h)
              \<and> (case analyze_profile app of
                    None \<Rightarrow> 0 \<le> h \<and> h \<le> 100
                  | Some g \<Rightarrow>
                      (case try_analyzer g (form_traits f) (perceived_stage f) of
                         Inl e \<Rightarrow> 0 \<le> h \<and> h \<le> 100
                       | Inr returned \<Rightarrow> h = snd returned)))"
proof -
  from analyze_my_day_result [OF assms] obtain scores auto_stage where
    scores: "analysis (analyze_profile app) (form_traits f) (perceived_stage f) = Inr scores"
    and entry: "entry = make_entry timestamp f (form_traits f) (fst scores) (snd scores) auto_stage"
    and saved: "save_checkin J entry file = Inr file'"
    by blast
  have "entry_field entry ''harmony_ratio'' = Some (PFloat (snd scores))"
    unfolding entry by (rule entry_field_harmony_ratio)
  with analysis_harmony_ratio [OF scores] saved show ?thesis
    by blast
qed

text \<open>
  Claim C4 as stated fails: an analyzer that returns a harmony ratio of 150 puts 150 into
  the logged record.
\<close>

theorem C4_counterexample:
  "logged_harmony_ratio
     (analyze_my_day inflated_core sample_json ''2025-01-01T09:00:00'' sample_form Missing)
     = Some (PFloat 150)
   \<and> \<not> (150 \<le> (100::real))"
  by (simp add: logged_harmony_ratio_def analyze_my_day_def inflated_core_def
      analysis_def try_analyzer_def inflated_analyzer_def form_traits_def sample_form_def
      dict_item_def dict_get_def py_float_def bind_err_def auto_stage_of_def
      resolved_map_disc_to_stage_def map_disc_to_stage_def dominant_trait_def
      dict_max_key_def save_checkin_def load_checkins_def py_append_def
      entry_field_def make_entry_def Let_def)

theorem C4_logged_harmony_ratio_witness:
  "analyze_my_day no_core sample_json ''2025-01-01T09:00:00'' sample_form Missing =
     Inr (make_entry ''2025-01-01T09:00:00'' sample_form (form_traits sample_form) 40 75
            (''Stage 6 '' @ em_dash @ '' Intimacy vs. Isolation''),
          Content (dumps sample_json
            (PList [make_entry ''2025-01-01T09:00:00'' sample_form (form_traits sample_form) 40 75
               (''Stage 6 '' @ em_dash @ '' Intimacy vs. Isolation'')])))
   \<and> entry_field
        (make_entry ''2025-01-01T09:00:00'' sample_form (form_traits sample_form) 40 75
           (''Stage 6 '' @ em_dash @ '' Intimacy vs. Isolation''))
        ''harmony_ratio'' = Some (PFloat 75)"
  using C4_logged_harmony_ratio [of no_core sample_json "''2025-01-01T09:00:00''" sample_form
      Missing
      "make_entry ''2025-01-01T09:00:00'' sample_form (form_traits sample_form) 40 75
         (''Stage 6 '' @ em_dash @ '' Intimacy vs. Isolation'')"
      "Content (dumps sample_json
         (PList [make_entry ''2025-01-01T09:00:00'' sample_form (form_traits sample_form) 40 75
            (''Stage 6 '' @ em_dash @ '' Intimacy vs. Isolation'')]))"]
  by (simp add: analyze_my_day_def no_core_def analysis_def form_traits_stage
      resolved_map_disc_to_stage_def map_disc_to_stage_def dominant_trait_def
      dict_max_key_def dict_get_def stage_mapping_def
      save_checkin_def load_checkins_def py_append_def bind_err_def Let_def
      compute_trait_score_def compute_harmony_ratio_def dict_values_def py_sum_def
      entry_field_harmony_ratio)
      (simp add: form_traits_def sample_form_def)

end
